theory Spec2Isabelle
  imports Main "HOL-Library.Word" "HOL-Library.Sublist"
begin

section \<open>Errors, instants and the caller's context\<close>

text \<open>
  The worker pool of package \<open>wpool\<close> runs an endpoint on a worker goroutine while the
  submitter waits for it under a deadline. This theory embeds the three Go files of the
  package (the task context, the task and the pool) and settles the claims made about
  them.

  An instant (\<open>time.Time\<close>) is the number of nanoseconds since Go's zero time, so that
  \<open>IsZero\<close> holds exactly at \<open>0\<close>; a \<open>time.Duration\<close> is a number of nanoseconds.
\<close>

type_synonym time = int
type_synonym duration = int

definition Millisecond :: duration where
  "Millisecond = 1000000"

definition Second :: duration where
  "Second = 1000 * Millisecond"

definition IsZero :: "time \<Rightarrow> bool" where
  "IsZero t = (t = 0)"

definition Before :: "time \<Rightarrow> time \<Rightarrow> bool" where
  "Before t u = (t < u)"

text \<open>
  A value recovered from a panic is only ever rendered with \<open>%v\<close> by this package.
  \<open>PanicString s\<close> is the Go string \<open>s\<close>, whose rendering is the string itself;
  \<open>PanicOther r\<close> is any other value, given by its rendering \<open>r\<close>. The values are those for
  which \<open>recover()\<close> does not return nil.
\<close>

datatype panic_value = PanicString string | PanicOther string

fun fmt_v :: "panic_value \<Rightarrow> string" where
  "fmt_v (PanicString s) = s"
| "fmt_v (PanicOther r) = r"

datatype rpcinfo = RPCInfo string string

text \<open>
  Go compares errors by identity. \<open>errTaskDone\<close> is the package variable
  \<open>errors.New("task done")\<close>; \<open>DeadlineExceeded\<close> and \<open>Canceled\<close> are the two variables of
  package \<open>context\<close>; \<open>ErrorsNew i m\<close> is the \<open>i\<close>-th value allocated by \<open>errors.New\<close> with
  message \<open>m\<close>; \<open>Errorf m\<close> is a value built by \<open>fmt.Errorf\<close> with message \<open>m\<close>.
  A nilable Go \<open>error\<close> is an \<open>error option\<close>, with \<open>None\<close> for \<open>nil\<close>.

  Modelled from the spec: \<open>rpcinfo.ClientPanicToErr\<close> is not among the sources. The
  specification says that, when RPC metadata is attached to the context, the panic is
  converted to a typed "client panic" error that carries the panic value and a stack;
  \<open>ClientPanic\<close> is that typed error.
\<close>

datatype error =
    errTaskDone
  | DeadlineExceeded
  | Canceled
  | ErrorsNew nat string
  | Errorf string
  | ClientPanic panic_value string rpcinfo

text \<open>
  The caller's \<open>context.Context\<close>, as far as the package reads it: its deadline
  (\<open>Deadline()\<close> returning \<open>(d, true)\<close> is \<open>Some d\<close>), its \<open>Err()\<close>, the RPC metadata
  found by \<open>rpcinfo.GetRPCInfo\<close> and whether the profiler is enabled for it. By the
  contract of \<open>context.Context\<close> the channel of \<open>Done()\<close> is closed exactly when \<open>Err()\<close> is
  not nil.
\<close>

record gocontext =
  ctx_Deadline :: "time option"
  ctx_Err :: "error option"
  ctx_RPCInfo :: "rpcinfo option"
  ctx_profiler :: bool

definition ctx_Done :: "gocontext \<Rightarrow> bool" where
  "ctx_Done c = (ctx_Err c \<noteq> None)"

definition Background :: gocontext where
  "Background = \<lparr>ctx_Deadline = None, ctx_Err = None, ctx_RPCInfo = None, ctx_profiler = False\<rparr>"

section \<open>The task context\<close>

text \<open>
  \<open>taskContext\<close> embeds the caller's context and adds a deadline \<open>dl\<close> (the zero time
  when there is none), a channel \<open>ch\<close> and the terminal error \<open>err\<close>. The mutex only makes
  \<open>Cancel\<close> and the read in \<open>Err\<close> atomic, which a function on the record is.
  Nothing is ever sent on \<open>ch\<close>, it is only closed: the field counts the \<open>close\<close>
  operations performed on it, so the channel is closed when the count is positive, and
  a count above \<open>1\<close> would be the run-time panic of closing a closed channel.
\<close>

record taskContext =
  Context :: gocontext
  dl :: time
  ch :: nat
  err :: "error option"

definition newTaskContext :: "time \<Rightarrow> gocontext \<Rightarrow> duration \<Rightarrow> taskContext" where
  "newTaskContext now c timeout =
    (let ret = \<lparr>Context = c, dl = 0, ch = 0, err = None\<rparr>;
         ret = (case ctx_Deadline c of Some deadline \<Rightarrow> ret\<lparr>dl := deadline\<rparr> | None \<Rightarrow> ret)
     in if timeout \<noteq> 0
        then (let d = now + timeout
              in if IsZero (dl ret) \<or> Before d (dl ret) then ret\<lparr>dl := d\<rparr> else ret)
        else ret)"

definition Deadline :: "taskContext \<Rightarrow> time \<times> bool" where
  "Deadline p = (dl p, \<not> IsZero (dl p))"

definition Done :: "taskContext \<Rightarrow> bool" where
  "Done p = (0 < ch p)"

definition Err :: "taskContext \<Rightarrow> error option" where
  "Err p =
    (let e = err p
     in if e = None \<or> e = Some errTaskDone then ctx_Err (Context p) else e)"

definition Cancel :: "error option \<Rightarrow> taskContext \<Rightarrow> taskContext" where
  "Cancel e p =
    (if e \<noteq> None \<and> err p = None then p\<lparr>err := e, ch := Suc (ch p)\<rparr> else p)"

text \<open>A run of \<open>Cancel\<close> calls, in the order in which they take the mutex.\<close>

fun Cancels :: "error option list \<Rightarrow> taskContext \<Rightarrow> taskContext" where
  "Cancels [] p = p"
| "Cancels (e # es) p = Cancels es (Cancel e p)"

section \<open>The task\<close>

text \<open>
  \<open>atomic.Value\<close> holding an error: \<open>None\<close> while nothing has been stored, and \<open>Load\<close>
  then returns nil. \<open>Store\<close> of a nil interface panics; the panic is the \<open>Inl\<close> branch.
\<close>

type_synonym atomic_Value = "error option"

definition Load :: "atomic_Value \<Rightarrow> error option" where
  "Load v = v"

definition Store :: "error option \<Rightarrow> atomic_Value \<Rightarrow> panic_value + atomic_Value" where
  "Store val v =
    (case val of
       None \<Rightarrow> Inl (PanicString ''sync/atomic: store of nil value into Value'')
     | Some e \<Rightarrow> Inr (Some e))"

text \<open>
  What one call of the endpoint does, as far as \<open>Run\<close> can tell: it returns an error
  (nil for success) or it panics with a value.
\<close>

datatype ep_result = Return "error option" | Panic panic_value

text \<open>
  The task. \<open>wg\<close> is the counter of the \<open>sync.WaitGroup\<close>, which \<open>newTask\<close> raises
  and \<open>Wait\<close> lowers (once for each \<open>newTask\<close>, so it never goes below zero, where
  \<open>Done\<close> would panic); \<open>recycle\<close> blocks on it until \<open>Wait\<close> has returned and only then clears
  the fields and puts the task back on the free list, so it is after everything
  that \<open>Wait\<close> reads and is left out here. \<open>newTask\<close> takes the task \<open>t0\<close> that the free list
  hands out, whatever it holds.
\<close>

record ('q, 'r) task =
  ctx :: taskContext
  wg :: int
  req :: 'q
  resp :: 'r
  ep :: "taskContext \<Rightarrow> 'q \<Rightarrow> 'r \<Rightarrow> ep_result"
  err :: atomic_Value

definition newTask ::
  "('q, 'r) task \<Rightarrow> time \<Rightarrow> gocontext \<Rightarrow> duration \<Rightarrow> 'q \<Rightarrow> 'r \<Rightarrow>
   (taskContext \<Rightarrow> 'q \<Rightarrow> 'r \<Rightarrow> ep_result) \<Rightarrow> ('q, 'r) task" where
  "newTask t0 now c timeout rq rs e =
    t0\<lparr>ctx := newTaskContext now c timeout, req := rq, resp := rs, ep := e,
       err := None, wg := wg t0 + 1\<rparr>"

definition task_Cancel :: "error option \<Rightarrow> ('q, 'r) task \<Rightarrow> ('q, 'r) task" where
  "task_Cancel e t = t\<lparr>ctx := Cancel e (ctx t)\<rparr>"

subsection \<open>Run\<close>

definition GetRPCInfo :: "taskContext \<Rightarrow> rpcinfo option" where
  "GetRPCInfo p = ctx_RPCInfo (Context p)"

definition IsEnabled :: "taskContext \<Rightarrow> bool" where
  "IsEnabled p = ctx_profiler (Context p)"

text \<open>
  Modelled from the spec: \<open>rpcinfo.ClientPanicToErr\<close> is not among the sources; by the
  specification it yields the typed "client panic" error carrying the panic value and a
  stack (and the RPC metadata it was given).
\<close>

definition ClientPanicToErr ::
  "taskContext \<Rightarrow> panic_value \<Rightarrow> rpcinfo \<Rightarrow> bool \<Rightarrow> string \<Rightarrow> error" where
  "ClientPanicToErr p panicInfo ri logErr stack = ClientPanic panicInfo stack ri"

text \<open>
  \<open>fmt.Errorf("KITEX: panic without rpcinfo, error=%v\nstack=%s", panicInfo, debug.Stack())\<close>
\<close>

definition panic_without_rpcinfo :: "panic_value \<Rightarrow> string \<Rightarrow> error" where
  "panic_without_rpcinfo panicInfo stack =
    Errorf (''KITEX: panic without rpcinfo, error='' @ fmt_v panicInfo @
            [CHR 0x0A] @ ''stack='' @ stack)"

text \<open>The error that the deferred function of \<open>Run\<close> stores for a recovered value.\<close>

definition panic_error :: "string \<Rightarrow> ('q, 'r) task \<Rightarrow> panic_value \<Rightarrow> error" where
  "panic_error stack t panicInfo =
    (case GetRPCInfo (ctx t) of
       Some ri \<Rightarrow> ClientPanicToErr (ctx t) panicInfo ri True stack
     | None \<Rightarrow> panic_without_rpcinfo panicInfo stack)"

text \<open>
  The body of \<open>Run\<close> (the statements after the \<open>defer\<close>), from the moment the endpoint call
  has produced \<open>r\<close>: the result is the panic in flight, if any, and the task. Both
  branches of the profiler test make the same call, so \<open>r\<close> is the outcome of either.
\<close>

definition Run_body :: "ep_result \<Rightarrow> ('q, 'r) task \<Rightarrow> panic_value option \<times> ('q, 'r) task" where
  "Run_body r t =
    (case r of
       Panic v \<Rightarrow> (Some v, t)
     | Return e \<Rightarrow>
         if e \<noteq> None
         then (case Store e (err t) of
                 Inl v \<Rightarrow> (Some v, t)
               | Inr s \<Rightarrow> (None, t\<lparr>err := s\<rparr>))
         else (None, t))"

text \<open>
  The first half of the deferred function: \<open>recover()\<close> and, for a panic, the store of
  the converted error. A panic raised in here is not recovered by anyone (\<open>Inl\<close>).
  \<open>stack\<close> is what \<open>debug.Stack()\<close> returns.
\<close>

definition Run_recover ::
  "string \<Rightarrow> panic_value option \<times> ('q, 'r) task \<Rightarrow> panic_value + ('q, 'r) task" where
  "Run_recover stack pt =
    (case pt of
       (None, t) \<Rightarrow> Inr t
     | (Some panicInfo, t) \<Rightarrow>
         (case (case GetRPCInfo (ctx t) of
                  Some ri \<Rightarrow> Store (Some (ClientPanicToErr (ctx t) panicInfo ri True stack)) (err t)
                | None \<Rightarrow> Store (Some (panic_without_rpcinfo panicInfo stack)) (err t)) of
            Inl v \<Rightarrow> Inl v
          | Inr s \<Rightarrow> Inr (t\<lparr>err := s\<rparr>)))"

text \<open>
  \<open>Run\<close> writes to the task three times, in this order: the body, the recovery, and
  \<open>t.Cancel(errTaskDone)\<close>. Between two of them the other goroutines run, and what they
  see of the task is the task of the pair; the first component says where \<open>Run\<close> is:
  about to run its body, about to recover (with the panic in flight, if any), about to
  cancel, returned, or dead of a panic that nobody recovered.
\<close>

datatype run_pc =
    AtBody
  | AtRecover "panic_value option"
  | AtCancel
  | Returned
  | Crashed panic_value

fun Run_step ::
  "string \<Rightarrow> ep_result \<Rightarrow> run_pc \<times> ('q, 'r) task \<Rightarrow> run_pc \<times> ('q, 'r) task" where
  "Run_step stack r (AtBody, t) =
     (case Run_body r t of (panicInfo, t') \<Rightarrow> (AtRecover panicInfo, t'))"
| "Run_step stack r (AtRecover panicInfo, t) =
     (case Run_recover stack (panicInfo, t) of
        Inl v \<Rightarrow> (Crashed v, t)
      | Inr t' \<Rightarrow> (AtCancel, t'))"
| "Run_step stack r (AtCancel, t) = (Returned, task_Cancel (Some errTaskDone) t)"
| "Run_step stack r (Returned, t) = (Returned, t)"
| "Run_step stack r (Crashed v, t) = (Crashed v, t)"

text \<open>
  \<open>Run\<close> once the endpoint call has produced \<open>r\<close>, when nothing else touches the task
  meanwhile: the three steps one after the other.
\<close>

definition Run_after :: "string \<Rightarrow> ep_result \<Rightarrow> ('q, 'r) task \<Rightarrow> panic_value + ('q, 'r) task" where
  "Run_after stack r t =
    (case Run_step stack r (Run_step stack r (Run_step stack r (AtBody, t))) of
       (Crashed v, t') \<Rightarrow> Inl v
     | (pc, t') \<Rightarrow> Inr t')"

definition call_ep :: "('q, 'r) task \<Rightarrow> ep_result" where
  "call_ep t =
    (if IsEnabled (ctx t) then ep t (ctx t) (req t) (resp t)
     else ep t (ctx t) (req t) (resp t))"

definition Run :: "string \<Rightarrow> ('q, 'r) task \<Rightarrow> panic_value + ('q, 'r) task" where
  "Run stack t = Run_after stack (call_ep t) t"

subsection \<open>Wait\<close>

text \<open>
  \<open>Wait\<close> blocks in a \<open>select\<close>. The case that fires is the scheduler's choice among the
  ready ones: \<open>CtxDone\<close> needs the task context's channel closed, \<open>ParentDone\<close> the
  caller's, and \<open>TimerC\<close> is the timer set to the time left until the deadline. The
  task given to \<open>Wait\<close> is the task as it is when \<open>Wait\<close> acts on it; \<open>now\<close> is the clock
  that \<open>time.Until\<close> reads. The result is \<open>None\<close> when the chosen case cannot fire on
  this task (the \<open>select\<close> still blocks), otherwise the task and the returned error;
  the returned context is the \<open>ctx\<close> of the returned task. The timer comes from a free
  list and is stopped, drained and reset to the time left; all that matters of it here
  is that it can fire.
\<close>

datatype select_case = CtxDone | ParentDone | TimerC

definition wg_Done :: "('q, 'r) task \<Rightarrow> ('q, 'r) task" where
  "wg_Done t = t\<lparr>wg := wg t - 1\<rparr>"

text \<open>The last three lines of both \<open>Wait\<close> and \<open>waitNoTimeout\<close>.\<close>

definition load_or_Err :: "('q, 'r) task \<Rightarrow> error option" where
  "load_or_Err t = (case Load (err t) of Some e \<Rightarrow> Some e | None \<Rightarrow> Err (ctx t))"

definition waitNoTimeout :: "select_case \<Rightarrow> ('q, 'r) task \<Rightarrow> (('q, 'r) task \<times> error option) option" where
  "waitNoTimeout sel t =
    (case sel of
       CtxDone \<Rightarrow> if Done (ctx t) then Some (t, load_or_Err t) else None
     | ParentDone \<Rightarrow>
         if ctx_Done (Context (ctx t))
         then (let t' = task_Cancel (ctx_Err (Context (ctx t))) t in Some (t', load_or_Err t'))
         else None
     | TimerC \<Rightarrow> None)"

definition Wait :: "time \<Rightarrow> select_case \<Rightarrow> ('q, 'r) task \<Rightarrow> (('q, 'r) task \<times> error option) option" where
  "Wait now sel t =
    map_option (\<lambda>(t', e). (wg_Done t', e))
      (case Deadline (ctx t) of
         (deadline, ok) \<Rightarrow>
           if \<not> ok then waitNoTimeout sel t
           else let d = deadline - now
                in if d < 0
                   then (let t' = task_Cancel (Some DeadlineExceeded) t in Some (t', Err (ctx t')))
                   else (case sel of
                           CtxDone \<Rightarrow> if Done (ctx t) then Some (t, load_or_Err t) else None
                         | ParentDone \<Rightarrow>
                             if ctx_Done (Context (ctx t))
                             then (let t' = task_Cancel (ctx_Err (Context (ctx t))) t
                                   in Some (t', load_or_Err t'))
                             else None
                         | TimerC \<Rightarrow>
                             (let t' = task_Cancel (Some DeadlineExceeded) t
                              in Some (t', load_or_Err t'))))"

section \<open>The pool\<close>

text \<open>
  \<open>size\<close> (here \<open>size'\<close>) and \<open>maxIdle\<close> are \<open>int32\<close>: 32-bit words read as two's complement,
  compared with \<open><s\<close>. The channel \<open>tasks\<close> is unbuffered, so all there is to it is who is
  blocked on it: the workers that are \<open>Idle\<close>. Besides the fields of the struct the state
  records what the pool's \<open>go\<close> and \<open>make\<close> statements have made: the resident workers
  (each running a task, idle since its \<open>lastactive\<close>, or leaving), the goroutines started
  so far in the order of their \<open>go\<close> statements, the number of tick channels made (a
  tick channel is named by its index) and the tick channels closed.
\<close>

datatype worker = Running | Idle time | Leaving

datatype 't goroutine = Reaper nat "duration option" | WorkerLoop 't | DetachedRun 't

record 't Pool =
  size' :: "32 word"
  maxIdle :: "32 word"
  maxIdleTime :: duration
  ticker :: "nat option"
  chans :: nat
  closed :: "nat list"
  workers :: "worker list"
  started :: "'t goroutine list"

definition New :: "int \<Rightarrow> duration \<Rightarrow> 't Pool" where
  "New m d =
    \<lparr>size' = 0, maxIdle = word_of_int m, maxIdleTime = d, ticker = None,
     chans = 0, closed = [], workers = [], started = []\<rparr>"

definition Size :: "'t Pool \<Rightarrow> 32 word" where
  "Size p = size' p"

definition AddInt32 :: "32 word \<Rightarrow> 't Pool \<Rightarrow> 32 word \<times> 't Pool" where
  "AddInt32 delta p = (size' p + delta, p\<lparr>size' := size' p + delta\<rparr>)"

text \<open>Go's integer division truncates towards zero.\<close>

definition quo :: "int \<Rightarrow> int \<Rightarrow> int" where
  "quo a b = (if (a < 0) = (b < 0) then \<bar>a\<bar> div \<bar>b\<bar> else - (\<bar>a\<bar> div \<bar>b\<bar>))"

text \<open>
  The period \<open>d\<close> that the reaper goroutine computes; with \<open>maxIdle = 0\<close> the division
  panics in that goroutine (\<open>None\<close>).
\<close>

definition tick_period :: "'t Pool \<Rightarrow> duration option" where
  "tick_period p =
    (if sint (maxIdle p) = 0 then None
     else (let d = quo (quo (maxIdleTime p) (sint (maxIdle p))) 10
           in if d < 10 * Millisecond then Some (10 * Millisecond) else Some d))"

definition createTicker :: "'t Pool \<Rightarrow> 't Pool" where
  "createTicker p =
    (let p = (case ticker p of Some c \<Rightarrow> p\<lparr>closed := closed p @ [c]\<rparr> | None \<Rightarrow> p);
         c = chans p;
         p = p\<lparr>chans := Suc c, ticker := Some c\<rparr>
     in p\<lparr>started := started p @ [Reaper c (tick_period p)]\<rparr>)"

definition createWorker :: "'t \<Rightarrow> 't Pool \<Rightarrow> bool \<times> 't Pool" where
  "createWorker t p =
    (case AddInt32 1 p of
       (n, p) \<Rightarrow>
         if n <s maxIdle p
         then (let p = (if n = 1 then createTicker p else p)
               in (True, p\<lparr>workers := workers p @ [Running],
                            started := started p @ [WorkerLoop t]\<rparr>))
         else (case AddInt32 (- 1) p of (_, p) \<Rightarrow> (False, p)))"

text \<open>
  A send on \<open>tasks\<close> is taken by a worker blocked in its \<open>range\<close> loop; which one is the
  scheduler's business, here the first idle one.
\<close>

fun first_idle :: "worker list \<Rightarrow> nat option" where
  "first_idle [] = None"
| "first_idle (Running # ws) = map_option Suc (first_idle ws)"
| "first_idle (Idle lastactive # ws) = Some 0"
| "first_idle (Leaving # ws) = map_option Suc (first_idle ws)"

text \<open>
  \<open>RunTask\<close> between \<open>newTask\<close> and \<open>Wait\<close>: the non-blocking send, \<open>createWorker\<close> when
  it misses, and \<open>go t.Run()\<close> when no worker was created.
\<close>

datatype dispatch = HandedOff | NewWorker | Detached

definition RunTask_dispatch :: "'t \<Rightarrow> 't Pool \<Rightarrow> dispatch \<times> 't Pool" where
  "RunTask_dispatch t p =
    (case first_idle (workers p) of
       Some i \<Rightarrow> (HandedOff, p\<lparr>workers := (workers p)[i := Running]\<rparr>)
     | None \<Rightarrow>
         (case createWorker t p of
            (ok, p) \<Rightarrow>
              if \<not> ok then (Detached, p\<lparr>started := started p @ [DetachedRun t]\<rparr>)
              else (NewWorker, p)))"

text \<open>
  \<open>RunTask\<close> up to its call of \<open>Wait\<close>; what it returns is what \<open>Wait\<close> returns on the
  task, once the goroutine running it and the clock have made a case of the \<open>select\<close>
  ready.
\<close>

definition RunTask ::
  "('q, 'r) task \<Rightarrow> time \<Rightarrow> gocontext \<Rightarrow> duration \<Rightarrow> 'q \<Rightarrow> 'r \<Rightarrow>
   (taskContext \<Rightarrow> 'q \<Rightarrow> 'r \<Rightarrow> ep_result) \<Rightarrow> ('q, 'r) task Pool \<Rightarrow>
   ('q, 'r) task \<times> dispatch \<times> ('q, 'r) task Pool" where
  "RunTask t0 now c timeout rq rs e p =
    (let t = newTask t0 now c timeout rq rs e in (t, RunTask_dispatch t p))"

text \<open>
  The worker goroutine after its first \<open>t.Run()\<close>: \<open>worker_ran\<close> is the return of a
  \<open>t.Run()\<close> (\<open>lastactive = time.Now()\<close>, back to the receive); \<open>worker_noop\<close> is the
  receipt of the reaper's nil by an idle worker, which breaks out of its loop when it
  has been idle for longer than \<open>maxIdleTime\<close> and is then \<open>Leaving\<close>; \<open>worker_exit\<close> is
  the deferred decrement of \<open>size\<close> with which a leaving worker ends.
\<close>

definition worker_exit :: "nat \<Rightarrow> 't Pool \<Rightarrow> 't Pool" where
  "worker_exit i p =
    (if i < length (workers p) \<and> workers p ! i = Leaving
     then (case AddInt32 (- 1) p of
             (_, p) \<Rightarrow> p\<lparr>workers := take i (workers p) @ drop (Suc i) (workers p)\<rparr>)
     else p)"

definition worker_noop :: "time \<Rightarrow> 't Pool \<Rightarrow> 't Pool" where
  "worker_noop now p =
    (case first_idle (workers p) of
       None \<Rightarrow> p
     | Some i \<Rightarrow>
         (case workers p ! i of
            Idle lastactive \<Rightarrow>
              if now - lastactive > maxIdleTime p
              then p\<lparr>workers := (workers p)[i := Leaving]\<rparr> else p
          | Running \<Rightarrow> p
          | Leaving \<Rightarrow> p))"

definition worker_ran :: "nat \<Rightarrow> time \<Rightarrow> 't Pool \<Rightarrow> 't Pool" where
  "worker_ran i now p =
    (if i < length (workers p) \<and> workers p ! i = Running
     then p\<lparr>workers := (workers p)[i := Idle now]\<rparr> else p)"

text \<open>
  Submissions run concurrently, and \<open>createWorker\<close> touches the counter twice when it
  refuses: \<open>AddInt32(+1)\<close> before the test and \<open>AddInt32(-1)\<close> in the \<open>else\<close> branch.
  Between the two the other goroutines see the counter raised. \<open>createWorker_add\<close>
  is \<open>createWorker\<close> up to its \<open>else\<close> (the increment, the test and everything it does
  when it keeps the slot), \<open>createWorker_undo\<close> is the \<open>else\<close> branch.
\<close>

definition createWorker_add :: "'t \<Rightarrow> 't Pool \<Rightarrow> bool \<times> 't Pool" where
  "createWorker_add t p =
    (case AddInt32 1 p of
       (n, p) \<Rightarrow>
         if n <s maxIdle p
         then (let p = (if n = 1 then createTicker p else p)
               in (True, p\<lparr>workers := workers p @ [Running],
                            started := started p @ [WorkerLoop t]\<rparr>))
         else (False, p))"

definition createWorker_undo :: "'t Pool \<Rightarrow> bool \<times> 't Pool" where
  "createWorker_undo p = (case AddInt32 (- 1) p of (_, p) \<Rightarrow> (False, p))"

text \<open>
  The pool together with its submitters: \<open>refusing\<close> holds the tasks of the
  submissions that are inside \<open>createWorker\<close> between the increment and the decrement.
\<close>

record 't submitting =
  pool :: "'t Pool"
  refusing :: "'t list"

definition at_New :: "int \<Rightarrow> duration \<Rightarrow> 't submitting" where
  "at_New m d = \<lparr>pool = New m d, refusing = []\<rparr>"

text \<open>
  What happens, one event at a time. \<open>Submit t\<close> is \<open>RunTask\<close> for the task \<open>t\<close> from its
  non-blocking send to the test in \<open>createWorker\<close>: the hand-off to an idle worker, or
  the increment and then either the new worker or the refusal. \<open>Refuse i\<close> is the rest
  of \<open>RunTask\<close> for the \<open>i\<close>-th refusing submission: the decrement, \<open>return false\<close> and
  \<open>go t.Run()\<close>. \<open>Ran i now\<close> is worker \<open>i\<close> returning from its \<open>t.Run()\<close>, \<open>Noop now\<close> a
  nil of the reaper received by an idle worker, and \<open>Left i\<close> the end of the leaving
  worker \<open>i\<close>. A submission that keeps its slot is one event: from its increment on
  the others see a counted worker that does not receive, whether its goroutine has
  been started yet or is running its first task.
\<close>

datatype 't event = Submit 't | Refuse nat | Ran nat time | Noop time | Left nat

fun step :: "'t event \<Rightarrow> 't submitting \<Rightarrow> 't submitting" where
  "step (Submit t) s =
     (case first_idle (workers (pool s)) of
        Some i \<Rightarrow> s\<lparr>pool := (pool s)\<lparr>workers := (workers (pool s))[i := Running]\<rparr>\<rparr>
      | None \<Rightarrow>
          (case createWorker_add t (pool s) of
             (ok, p) \<Rightarrow>
               if ok then s\<lparr>pool := p\<rparr>
               else s\<lparr>pool := p, refusing := refusing s @ [t]\<rparr>))"
| "step (Refuse i) s =
     (if i < length (refusing s)
      then (case createWorker_undo (pool s) of
              (ok, p) \<Rightarrow>
                s\<lparr>pool := p\<lparr>started := started p @ [DetachedRun (refusing s ! i)]\<rparr>,
                  refusing := take i (refusing s) @ drop (Suc i) (refusing s)\<rparr>)
      else s)"
| "step (Ran i now) s = s\<lparr>pool := worker_ran i now (pool s)\<rparr>"
| "step (Noop now) s = s\<lparr>pool := worker_noop now (pool s)\<rparr>"
| "step (Left i) s = s\<lparr>pool := worker_exit i (pool s)\<rparr>"

fun steps :: "'t event list \<Rightarrow> 't submitting \<Rightarrow> 't submitting" where
  "steps [] s = s"
| "steps (e # es) s = steps es (step e s)"

section \<open>The scenarios of the package's tests\<close>

text \<open>
  \<open>TestTask\<close> makes its tasks with \<open>newTask(context.Background(), 20ms, nil, nil, ep)\<close>.
  \<open>zero_task\<close> is the \<open>&task{}\<close> of the free list (its \<open>ctx\<close> is a nil pointer, which
  \<open>newTask\<close> replaces before any use), \<open>test_start\<close> an instant of the year 2026.
\<close>

definition test_start :: time where
  "test_start = 63900000000000000000"

definition zero_task :: "(unit, unit) task" where
  "zero_task =
    \<lparr>ctx = \<lparr>Context = Background, dl = 0, ch = 0, taskContext.err = None\<rparr>,
     wg = 0, req = (), resp = (), ep = (\<lambda>c rq rs. Return None), err = None\<rparr>"

definition returnErr :: error where
  "returnErr = ErrorsNew 1 ''ep error''"

definition ReturnErr_task :: "(unit, unit) task" where
  "ReturnErr_task =
    newTask zero_task test_start Background (20 * Millisecond) () ()
      (\<lambda>c rq rs. Return (Some returnErr))"

definition Panic_task :: "(unit, unit) task" where
  "Panic_task =
    newTask zero_task test_start Background (20 * Millisecond) () ()
      (\<lambda>c rq rs. Panic (PanicString ''testpanic''))"

text \<open>\<open>BenchmarkWPool\<close> submits \<open>noop\<close>, which returns nil, with a timeout of a second.\<close>

definition noop_task :: "(unit, unit) task" where
  "noop_task =
    newTask zero_task test_start Background Second () () (\<lambda>c rq rs. Return None)"

section \<open>What the pool keeps invariant\<close>

text \<open>
  \<open>size\<close> is the number of resident workers plus the number of refusing submissions,
  and there are at most \<open>maxIdle - 1\<close> resident workers (none when \<open>maxIdle\<close> is not
  positive).
\<close>

definition pool_inv :: "'t submitting \<Rightarrow> bool" where
  "pool_inv s =
    (sint (size' (pool s)) = int (length (workers (pool s))) + int (length (refusing s)) \<and>
     int (length (workers (pool s))) \<le> max 0 (sint (maxIdle (pool s)) - 1))"

section \<open>Properties of the task context\<close>

lemma Cancel_set: "taskContext.err p \<noteq> None \<Longrightarrow> Cancel e p = p"
  by (auto simp: Cancel_def)

lemma Cancels_set: "taskContext.err p \<noteq> None \<Longrightarrow> Cancels es p = p"
  by (induction es) (simp_all add: Cancel_set)

lemma Cancels_nil: "\<forall>x\<in>set pre. x = None \<Longrightarrow> Cancels pre p = p"
  by (induction pre) (simp_all add: Cancel_def)

lemma Cancels_append: "Cancels (xs @ ys) p = Cancels ys (Cancels xs p)"
  by (induction xs arbitrary: p) simp_all

lemma newTaskContext_fresh:
  "taskContext.err (newTaskContext now c timeout) = None \<and>
   ch (newTaskContext now c timeout) = 0 \<and>
   Context (newTaskContext now c timeout) = c"
  by (simp add: newTaskContext_def Let_def split: option.split)

text \<open>
  Claim C4, as the code has it. \<open>newTaskContext\<close> uses the zero time for "no deadline":
  the stored deadline \<open>dl\<close> is the earlier of the caller's deadline and \<open>now + timeout\<close>
  when the caller has one and the timeout is not \<open>0\<close>, the caller's deadline alone when
  the timeout is \<open>0\<close>, \<open>now + timeout\<close> alone when the caller has none, and the zero time
  when there is neither; this for every caller whose deadline is not itself the zero
  time. \<open>Deadline()\<close> returns \<open>dl\<close>, and the flag \<open>true\<close> exactly when \<open>dl\<close> is not the zero
  time.
\<close>

theorem newTaskContext_deadline:
  assumes "ctx_Deadline c \<noteq> Some 0"
  shows "dl (newTaskContext now c timeout) =
           (case ctx_Deadline c of
              Some d \<Rightarrow> if timeout = 0 then d else min d (now + timeout)
            | None \<Rightarrow> if timeout = 0 then 0 else now + timeout) \<and>
         Deadline p = (dl p, dl p \<noteq> 0)"
  using assms
  by (auto simp: newTaskContext_def Deadline_def IsZero_def Before_def Let_def
           split: option.split)

theorem newTaskContext_deadline_witness:
  "ctx_Deadline (Background\<lparr>ctx_Deadline := Some (test_start + 500 * Millisecond)\<rparr>) \<noteq> Some 0 \<and>
   dl (newTaskContext test_start
         (Background\<lparr>ctx_Deadline := Some (test_start + 500 * Millisecond)\<rparr>)
         (20 * Millisecond)) =
     test_start + 20 * Millisecond \<and>
   Deadline (newTaskContext test_start
         (Background\<lparr>ctx_Deadline := Some (test_start + 500 * Millisecond)\<rparr>)
         (20 * Millisecond)) =
     (test_start + 20 * Millisecond, True)"
  using newTaskContext_deadline
    [of "Background\<lparr>ctx_Deadline := Some (test_start + 500 * Millisecond)\<rparr>"
        test_start "20 * Millisecond"
        "newTaskContext test_start
           (Background\<lparr>ctx_Deadline := Some (test_start + 500 * Millisecond)\<rparr>)
           (20 * Millisecond)"]
  by (simp add: Background_def test_start_def Millisecond_def)

text \<open>
  Claim C4 as it is stated fails for a caller whose deadline is the zero time (as
  \<open>context.WithDeadline(ctx, time.Time{})\<close> gives): the caller has a deadline and the
  timeout is not \<open>0\<close>, the caller's deadline is the earlier of the two, and the task
  context gets \<open>now + timeout\<close>.
\<close>

theorem newTaskContext_zero_deadline_counterexample:
  "ctx_Deadline (Background\<lparr>ctx_Deadline := Some 0\<rparr>) = Some 0 \<and>
   20 * Millisecond \<noteq> 0 \<and>
   dl (newTaskContext test_start (Background\<lparr>ctx_Deadline := Some 0\<rparr>) (20 * Millisecond)) =
     test_start + 20 * Millisecond \<and>
   dl (newTaskContext test_start (Background\<lparr>ctx_Deadline := Some 0\<rparr>) (20 * Millisecond)) \<noteq>
     min 0 (test_start + 20 * Millisecond)"
  by (simp add: newTaskContext_def Let_def IsZero_def Before_def Background_def
        test_start_def Millisecond_def)

text \<open>
  Claim C5. In a run of \<open>Cancel\<close> calls whose first call with a non-nil error is
  \<open>Cancel(e)\<close> (the calls \<open>pre\<close> before it all pass nil), a context with no error yet ends
  with the error \<open>e\<close> and one more \<open>close\<close> on its channel, whatever the calls \<open>rest\<close>
  after it are; a context that already holds an error is left as it is; the nil calls
  alone change nothing. For a context made by \<open>newTaskContext\<close> the channel has been
  closed exactly once.
\<close>

theorem Cancel_first_error_wins:
  assumes "\<forall>x\<in>set pre. x = None"
  shows "Cancels pre p = p \<and>
         Cancels (pre @ Some e # rest) p =
           (if taskContext.err p = None
            then p\<lparr>taskContext.err := Some e, ch := Suc (ch p)\<rparr> else p) \<and>
         taskContext.err (Cancels (pre @ Some e # rest) (newTaskContext now c timeout)) = Some e \<and>
         ch (Cancels (pre @ Some e # rest) (newTaskContext now c timeout)) = 1"
proof -
  have nil: "Cancels pre q = q" for q
    using assms by (rule Cancels_nil)
  have one: "Cancels (Some e # rest) q =
      (if taskContext.err q = None
       then q\<lparr>taskContext.err := Some e, ch := Suc (ch q)\<rparr> else q)" for q
    by (simp add: Cancel_def Cancels_set)
  show ?thesis
    using newTaskContext_fresh [of now c timeout]
    by (simp only: Cancels_append nil one) simp
qed

theorem Cancel_first_error_wins_witness:
  "list_all (\<lambda>x. x = None) [None, None :: error option] \<and>
   Cancels ([None, None] @ Some DeadlineExceeded # [Some errTaskDone, None, Some Canceled])
     (newTaskContext test_start Background (20 * Millisecond)) =
     \<lparr>Context = Background, dl = test_start + 20 * Millisecond, ch = 1,
      err = Some DeadlineExceeded\<rparr>"
  using Cancel_first_error_wins
    [of "[None, None]" "newTaskContext test_start Background (20 * Millisecond)"
        DeadlineExceeded "[Some errTaskDone, None, Some Canceled]"
        test_start Background "20 * Millisecond"]
  by (simp add: newTaskContext_def Background_def Let_def IsZero_def Before_def Cancel_def
        test_start_def Millisecond_def)

text \<open>
  Claim C6. \<open>Err()\<close> returns the recorded error when it is neither nil nor the
  "task done" sentinel, and the caller's \<open>Err()\<close> otherwise. After a clean completion,
  when \<open>Run\<close> has cancelled a fresh context with the sentinel, \<open>Err()\<close> is the caller's
  \<open>Err()\<close>, which is nil for a live caller such as \<open>context.Background()\<close>.
\<close>

theorem Err_filters_sentinel:
  "Err p =
     (case taskContext.err p of
        None \<Rightarrow> ctx_Err (Context p)
      | Some e \<Rightarrow> if e = errTaskDone then ctx_Err (Context p) else Some e) \<and>
   Err (Cancel (Some errTaskDone) (newTaskContext now c timeout)) = ctx_Err c \<and>
   Err (Cancel (Some errTaskDone) (newTaskContext now Background timeout)) = None"
  by (simp add: Err_def Cancel_def Let_def newTaskContext_fresh Background_def
           split: option.split)

section \<open>Properties of the task\<close>

subsection \<open>What \<open>Run\<close> and \<open>Wait\<close> compute\<close>

lemmas scenario_defs =
  ReturnErr_task_def Panic_task_def noop_task_def zero_task_def returnErr_def
  test_start_def Millisecond_def Second_def Background_def
  newTask_def newTaskContext_def IsZero_def Before_def Deadline_def Let_def

lemma Run_body_Return:
  "Run_body (Return e) t = (None, t\<lparr>err := (case e of None \<Rightarrow> err t | Some x \<Rightarrow> Some x)\<rparr>)"
  by (cases e) (simp_all add: Run_body_def Store_def)

lemma Run_body_Panic: "Run_body (Panic v) t = (Some v, t)"
  by (simp add: Run_body_def)

lemma Run_recover_None: "Run_recover stack (None, t) = Inr t"
  by (simp add: Run_recover_def)

lemma Run_recover_Some:
  "Run_recover stack (Some v, t) = Inr (t\<lparr>err := Some (panic_error stack t v)\<rparr>)"
  by (simp add: Run_recover_def Store_def panic_error_def split: option.split)

lemma Run_after_Return:
  "Run_after stack (Return e) t =
     Inr (task_Cancel (Some errTaskDone)
            (t\<lparr>err := (case e of None \<Rightarrow> err t | Some x \<Rightarrow> Some x)\<rparr>))"
  by (simp add: Run_after_def Run_body_Return Run_recover_None)

lemma Run_after_Panic:
  "Run_after stack (Panic v) t =
     Inr (task_Cancel (Some errTaskDone) (t\<lparr>err := Some (panic_error stack t v)\<rparr>))"
  by (simp add: Run_after_def Run_body_Panic Run_recover_Some)

lemma call_ep_eq: "call_ep t = ep t (ctx t) (req t) (resp t)"
  by (simp add: call_ep_def)

lemma panic_message:
  "sublist (fmt_v v)
     (''KITEX: panic without rpcinfo, error='' @ fmt_v v @ [CHR 0x0A] @ ''stack='' @ stack)"
  by (rule sublist_appendI)

lemma task_Cancel_fields:
  "err (task_Cancel e t) = err t"
  "ctx (task_Cancel e t) = Cancel e (ctx t)"
  "wg (task_Cancel e t) = wg t"
  by (simp_all add: task_Cancel_def)

lemma Wait_past_deadline:
  assumes "snd (Deadline (ctx t))" "fst (Deadline (ctx t)) < now"
  shows "Wait now sel t =
           Some (wg_Done (task_Cancel (Some DeadlineExceeded) t),
                 Err (Cancel (Some DeadlineExceeded) (ctx t)))"
  using assms by (simp add: Wait_def Deadline_def Let_def task_Cancel_def)

lemma Wait_CtxDone:
  assumes "Done (ctx t)" "\<not> (snd (Deadline (ctx t)) \<and> fst (Deadline (ctx t)) < now)"
  shows "Wait now CtxDone t = Some (wg_Done t, load_or_Err t)"
  using assms by (auto simp add: Wait_def waitNoTimeout_def Deadline_def Let_def)

lemma Wait_completed:
  assumes "taskContext.err (ctx t) \<noteq> None"
      and "\<not> (snd (Deadline (ctx t)) \<and> fst (Deadline (ctx t)) < now)"
  shows "Wait now sel t = None \<or> Wait now sel t = Some (wg_Done t, load_or_Err t)"
  using assms
  by (cases sel)
     (auto simp add: Wait_def waitNoTimeout_def Deadline_def Let_def task_Cancel_def
        Cancel_def)

text \<open>
  On the two paths of \<open>Wait\<close> that go through a \<open>select\<close>, the error slot is read first
  and the context's \<open>Err()\<close> only when the slot is empty.
\<close>

lemma Wait_select_reads_slot_first:
  assumes "\<not> (snd (Deadline (ctx t)) \<and> fst (Deadline (ctx t)) < now)"
      and "Wait now sel t = Some (t', e)"
  shows "e = (case Load (err t) of Some x \<Rightarrow> Some x | None \<Rightarrow> Err (ctx t'))"
  using assms
  by (cases sel)
     (auto simp add: Wait_def waitNoTimeout_def Deadline_def Let_def load_or_Err_def
        task_Cancel_def wg_Done_def split: if_splits option.splits)

subsection \<open>The error slot\<close>

text \<open>
  Claim C10. \<open>Run\<close> never stores nil: for every return value \<open>e\<close> of the endpoint, nil
  included, the body of \<open>Run\<close> ends without a panic from \<open>Store\<close>, and leaves the slot as
  it was when \<open>e\<close> is nil; for every outcome \<open>r\<close> of the endpoint \<open>Run\<close> ends normally, with the
  slot untouched for a nil return, holding the returned error for a non-nil one and
  the converted error for a panic. \<open>newTask\<close> empties the slot and starts with a context
  without error. So on a task \<open>t\<close> with an empty slot, no error in its context and a
  live caller, \<open>Run\<close> after a nil return leaves the slot empty and \<open>Wait\<close> returns nil.
\<close>

theorem error_slot_never_nil:
  assumes "err t = None"
      and "taskContext.err (ctx t) = None"
      and "ctx_Err (Context (ctx t)) = None"
  shows "Run_body (Return e) u =
           (None, u\<lparr>err := (case e of None \<Rightarrow> err u | Some x \<Rightarrow> Some x)\<rparr>) \<and>
         Run_after stack r u =
           Inr (task_Cancel (Some errTaskDone)
                  (u\<lparr>err := (case r of
                                 Return None \<Rightarrow> err u
                               | Return (Some x) \<Rightarrow> Some x
                               | Panic v \<Rightarrow> Some (panic_error stack u v))\<rparr>)) \<and>
         Load (err (newTask t0 now0 c timeout rq rs f)) = None \<and>
         taskContext.err (ctx (newTask t0 now0 c timeout rq rs f)) = None \<and>
         Run_after stack (Return None) t = Inr (task_Cancel (Some errTaskDone) t) \<and>
         Load (err (task_Cancel (Some errTaskDone) t)) = None \<and>
         Wait now CtxDone (task_Cancel (Some errTaskDone) t) =
           Some (wg_Done (task_Cancel (Some errTaskDone) t), None)"
proof -
  let ?t1 = "task_Cancel (Some errTaskDone) t"
  have r: "Run_after stack r u =
           Inr (task_Cancel (Some errTaskDone)
                  (u\<lparr>err := (case r of
                                 Return None \<Rightarrow> err u
                               | Return (Some x) \<Rightarrow> Some x
                               | Panic v \<Rightarrow> Some (panic_error stack u v))\<rparr>))"
    by (cases r) (simp_all add: Run_after_Return Run_after_Panic split: option.split)
  have new: "Load (err (newTask t0 now0 c timeout rq rs f)) = None \<and>
      taskContext.err (ctx (newTask t0 now0 c timeout rq rs f)) = None"
    using newTaskContext_fresh [of now0 c timeout] by (simp add: newTask_def Load_def)
  have c: "ctx ?t1 = (ctx t)\<lparr>taskContext.err := Some errTaskDone, ch := Suc (ch (ctx t))\<rparr>"
    using assms(2) by (simp add: task_Cancel_def Cancel_def)
  have e: "Err (ctx ?t1) = None"
    using assms(3) by (simp add: c Err_def)
  have l: "load_or_Err ?t1 = None"
    using e assms(1) by (simp add: load_or_Err_def Load_def task_Cancel_def)
  have noop: "task_Cancel (Some DeadlineExceeded) ?t1 = ?t1"
    by (simp add: task_Cancel_def Cancel_def c)
  have w: "Wait now CtxDone ?t1 = Some (wg_Done ?t1, None)"
  proof (cases "snd (Deadline (ctx ?t1)) \<and> fst (Deadline (ctx ?t1)) < now")
    case True
    then show ?thesis
      using Wait_past_deadline [of ?t1 now CtxDone] noop e
      by (simp add: task_Cancel_fields [symmetric] del: task_Cancel_fields)
  next
    case False
    then show ?thesis
      using Wait_CtxDone [of ?t1 now] l by (simp add: c Done_def)
  qed
  have run: "Run_after stack (Return None) t = Inr ?t1"
    by (simp add: Run_after_Return)
  have l1: "Load (err ?t1) = None"
    using assms(1) by (simp add: Load_def task_Cancel_def)
  show ?thesis
    using r new w run l1 by (simp add: Run_body_Return)
qed

text \<open>
  The \<open>noop\<close> endpoint of the benchmark: the slot stays empty and \<open>Wait\<close> returns nil.
\<close>

theorem error_slot_never_nil_witness:
  "err noop_task = None \<and> taskContext.err (ctx noop_task) = None \<and>
   ctx_Err (Context (ctx noop_task)) = None \<and>
   Run ''goroutine 7 [running]'' noop_task = Inr (task_Cancel (Some errTaskDone) noop_task) \<and>
   Load (err (task_Cancel (Some errTaskDone) noop_task)) = None \<and>
   Wait (test_start + Millisecond) CtxDone (task_Cancel (Some errTaskDone) noop_task) =
     Some (wg_Done (task_Cancel (Some errTaskDone) noop_task), None)"
  using error_slot_never_nil
    [of noop_task None noop_task "''goroutine 7 [running]''" "Return None" zero_task test_start
        Background Second "()" "()" "\<lambda>c rq rs. Return None" "test_start + Millisecond"]
  by (simp add: scenario_defs Run_def call_ep_def)

subsection \<open>Panics\<close>

lemma Run_steps_Panic:
  "Run_step stack (Panic v) (AtBody, t) = (AtRecover (Some v), t)"
  "Run_step stack r (AtRecover (Some v), t) = (AtCancel, t\<lparr>err := Some (panic_error stack t v)\<rparr>)"
  by (simp_all add: Run_body_Panic Run_recover_Some)

text \<open>
  Claim C7, as the code has it. The endpoint panics with \<open>v\<close>; when \<open>Run\<close> gets to its
  \<open>Cancel\<close>, nothing else has cancelled the task context (no error in it, its channel
  open), the caller is live, and \<open>Wait\<close> reads the clock no later than the deadline.
  Step by step: the body leaves the task as it was, with the panic in flight; the
  deferred function recovers it and stores the converted error in the slot, the
  context still untouched; only the third step cancels the context with the
  "task done" sentinel, and \<open>Run\<close> returns normally. A \<open>Wait\<close> that is waiting on the
  task's channel stays blocked on the task as it is before the third step, and on
  the task after it returns the stored error, as it does whatever case of its
  \<open>select\<close> fires then, with \<open>Err()\<close> of the returned context nil. Without RPC metadata the stored error is the \<open>fmt.Errorf\<close> one, whose message
  contains the rendering of \<open>v\<close>.
\<close>

theorem Run_panic_becomes_error:
  assumes "ep t (ctx t) (req t) (resp t) = Panic v"
      and "taskContext.err (ctx t) = None"
      and "\<not> Done (ctx t)"
      and "ctx_Err (Context (ctx t)) = None"
      and "\<not> (snd (Deadline (ctx t)) \<and> fst (Deadline (ctx t)) < now)"
  shows "Run_step stack (call_ep t) (AtBody, t) = (AtRecover (Some v), t) \<and>
         Run_step stack (call_ep t) (AtRecover (Some v), t) =
           (AtCancel, t\<lparr>err := Some (panic_error stack t v)\<rparr>) \<and>
         ctx (t\<lparr>err := Some (panic_error stack t v)\<rparr>) = ctx t \<and>
         Run_step stack (call_ep t) (AtCancel, t\<lparr>err := Some (panic_error stack t v)\<rparr>) =
           (Returned, task_Cancel (Some errTaskDone) (t\<lparr>err := Some (panic_error stack t v)\<rparr>)) \<and>
         Run stack t =
           Inr (task_Cancel (Some errTaskDone) (t\<lparr>err := Some (panic_error stack t v)\<rparr>)) \<and>
         Wait now CtxDone t = None \<and>
         Wait now CtxDone (t\<lparr>err := Some (panic_error stack t v)\<rparr>) = None \<and>
         Wait now CtxDone
             (task_Cancel (Some errTaskDone) (t\<lparr>err := Some (panic_error stack t v)\<rparr>)) =
           Some (wg_Done (task_Cancel (Some errTaskDone)
                            (t\<lparr>err := Some (panic_error stack t v)\<rparr>)),
                 Some (panic_error stack t v)) \<and>
         (Wait now sel
              (task_Cancel (Some errTaskDone) (t\<lparr>err := Some (panic_error stack t v)\<rparr>)) =
            None \<or>
          Wait now sel
              (task_Cancel (Some errTaskDone) (t\<lparr>err := Some (panic_error stack t v)\<rparr>)) =
            Some (wg_Done (task_Cancel (Some errTaskDone)
                             (t\<lparr>err := Some (panic_error stack t v)\<rparr>)),
                  Some (panic_error stack t v))) \<and>
         Err (ctx (wg_Done (task_Cancel (Some errTaskDone)
                              (t\<lparr>err := Some (panic_error stack t v)\<rparr>)))) = None \<and>
         (GetRPCInfo (ctx t) = None \<longrightarrow>
            panic_error stack t v =
              Errorf (''KITEX: panic without rpcinfo, error='' @ fmt_v v @ [CHR 0x0A] @
                      ''stack='' @ stack) \<and>
            sublist (fmt_v v)
              (''KITEX: panic without rpcinfo, error='' @ fmt_v v @ [CHR 0x0A] @
               ''stack='' @ stack))"
proof -
  let ?e = "panic_error stack t v"
  let ?t1 = "task_Cancel (Some errTaskDone) (t\<lparr>err := Some ?e\<rparr>)"
  have call: "call_ep t = Panic v"
    using assms(1) by (simp add: call_ep_eq)
  have s1: "Run_step stack (call_ep t) (AtBody, t) = (AtRecover (Some v), t)"
    by (simp only: call Run_steps_Panic)
  have s2: "Run_step stack (call_ep t) (AtRecover (Some v), t) = (AtCancel, t\<lparr>err := Some ?e\<rparr>)"
    by (simp only: Run_steps_Panic)
  have s3: "Run_step stack (call_ep t) (AtCancel, t\<lparr>err := Some ?e\<rparr>) = (Returned, ?t1)"
    by simp
  have run: "Run stack t = Inr ?t1"
    by (simp add: Run_def call Run_after_Panic)
  have blocked: "Wait now CtxDone t = None" "Wait now CtxDone (t\<lparr>err := Some ?e\<rparr>) = None"
    using assms(3,5)
    by (auto simp add: Wait_def waitNoTimeout_def Deadline_def Let_def)
  have c: "ctx ?t1 = (ctx t)\<lparr>taskContext.err := Some errTaskDone, ch := Suc (ch (ctx t))\<rparr>"
    using assms(2) by (simp add: task_Cancel_def Cancel_def)
  have dl: "Deadline (ctx ?t1) = Deadline (ctx t)"
    by (simp add: c Deadline_def)
  have dn: "Done (ctx ?t1)"
    by (simp add: c Done_def)
  have load: "load_or_Err ?t1 = Some ?e"
    by (simp add: load_or_Err_def Load_def task_Cancel_def)
  have e: "Err (ctx (wg_Done ?t1)) = None"
    using assms(4) by (simp add: wg_Done_def c Err_def)
  have w: "Wait now CtxDone ?t1 = Some (wg_Done ?t1, Some ?e)"
    using Wait_CtxDone [of ?t1 now] dn assms(5) load by (simp only: dl) simp
  have set: "taskContext.err (ctx ?t1) \<noteq> None"
    by (simp add: c)
  have ws: "Wait now sel ?t1 = None \<or> Wait now sel ?t1 = Some (wg_Done ?t1, Some ?e)"
    using Wait_completed [of ?t1 now sel] set assms(5) load by (simp only: dl) simp
  have m: "GetRPCInfo (ctx t) = None \<longrightarrow>
      ?e = Errorf (''KITEX: panic without rpcinfo, error='' @ fmt_v v @ [CHR 0x0A] @
                   ''stack='' @ stack)"
    by (simp add: panic_error_def panic_without_rpcinfo_def)
  have ctx_same: "ctx (t\<lparr>err := Some ?e\<rparr>) = ctx t"
    by simp
  show ?thesis
    using s1 s2 s3 run blocked w ws e m ctx_same panic_message [of v stack] by blast
qed

text \<open>
  The "Panic" case of \<open>TestTask\<close>: the endpoint panics with \<open>"testpanic"\<close>, and \<open>Wait\<close>
  has read the clock 1 ms after the start.
\<close>

theorem Run_panic_becomes_error_witness:
  "Run_step ''goroutine 7 [running]'' (call_ep Panic_task) (AtRecover (Some (PanicString ''testpanic'')), Panic_task) =
     (AtCancel,
      Panic_task\<lparr>err := Some (Errorf (''KITEX: panic without rpcinfo, error=testpanic'' @
                                       [CHR 0x0A] @ ''stack=goroutine 7 [running]''))\<rparr>) \<and>
   Run ''goroutine 7 [running]'' Panic_task =
     Inr (task_Cancel (Some errTaskDone)
            (Panic_task\<lparr>err := Some (Errorf (''KITEX: panic without rpcinfo, error=testpanic'' @
                                             [CHR 0x0A] @ ''stack=goroutine 7 [running]''))\<rparr>)) \<and>
   Wait (test_start + Millisecond) CtxDone
       (Panic_task\<lparr>err := Some (Errorf (''KITEX: panic without rpcinfo, error=testpanic'' @
                                        [CHR 0x0A] @ ''stack=goroutine 7 [running]''))\<rparr>) = None \<and>
   Wait (test_start + Millisecond) CtxDone
       (task_Cancel (Some errTaskDone)
            (Panic_task\<lparr>err := Some (Errorf (''KITEX: panic without rpcinfo, error=testpanic'' @
                                             [CHR 0x0A] @ ''stack=goroutine 7 [running]''))\<rparr>)) =
     Some (wg_Done (task_Cancel (Some errTaskDone)
            (Panic_task\<lparr>err := Some (Errorf (''KITEX: panic without rpcinfo, error=testpanic'' @
                                             [CHR 0x0A] @ ''stack=goroutine 7 [running]''))\<rparr>)),
           Some (Errorf (''KITEX: panic without rpcinfo, error=testpanic'' @
                                             [CHR 0x0A] @ ''stack=goroutine 7 [running]''))) \<and>
   sublist ''testpanic'' (''KITEX: panic without rpcinfo, error=testpanic'' @
                                             [CHR 0x0A] @ ''stack=goroutine 7 [running]'')"
  using Run_panic_becomes_error
    [of Panic_task "PanicString ''testpanic''" "test_start + Millisecond"
        "''goroutine 7 [running]''" CtxDone]
  by (simp add: scenario_defs panic_error_def panic_without_rpcinfo_def GetRPCInfo_def Done_def)

text \<open>
  Claim C7 as it is stated fails when the endpoint is still running at the deadline
  and panics only afterwards. \<open>Wait\<close>, which read the clock 1 ms after the start, is
  woken by its timer: it cancels the context with \<open>DeadlineExceeded\<close> and returns that
  error, and \<open>Err()\<close> of the returned context is \<open>DeadlineExceeded\<close>, not nil. The panic
  is then recovered and stored as ever, and \<open>Err()\<close> stays \<open>DeadlineExceeded\<close>.
\<close>

theorem panic_after_deadline_counterexample:
  "Wait (test_start + Millisecond) TimerC Panic_task =
     Some (wg_Done (task_Cancel (Some DeadlineExceeded) Panic_task), Some DeadlineExceeded) \<and>
   Err (ctx (wg_Done (task_Cancel (Some DeadlineExceeded) Panic_task))) = Some DeadlineExceeded \<and>
   Run ''goroutine 7 [running]'' (wg_Done (task_Cancel (Some DeadlineExceeded) Panic_task)) =
     Inr ((wg_Done (task_Cancel (Some DeadlineExceeded) Panic_task))
            \<lparr>err := Some (Errorf (''KITEX: panic without rpcinfo, error=testpanic'' @
                                  [CHR 0x0A] @ ''stack=goroutine 7 [running]''))\<rparr>) \<and>
   Err (ctx ((wg_Done (task_Cancel (Some DeadlineExceeded) Panic_task))
            \<lparr>err := Some (Errorf (''KITEX: panic without rpcinfo, error=testpanic'' @
                                  [CHR 0x0A] @ ''stack=goroutine 7 [running]''))\<rparr>)) =
     Some DeadlineExceeded"
  by (simp add: scenario_defs Run_def call_ep_def Run_after_Panic Wait_def task_Cancel_def
        Cancel_def Err_def wg_Done_def Load_def load_or_Err_def panic_error_def
        panic_without_rpcinfo_def GetRPCInfo_def)

subsection \<open>Errors of the endpoint\<close>

text \<open>
  The endpoint returns the error \<open>E\<close>, and \<open>Run\<close> completes before anything else has
  cancelled the context (no error recorded in it, the caller live). When \<open>Wait\<close> reads
  the clock and the deadline, if there is one, has not passed, \<open>Wait\<close> can return on the
  closed channel, whatever case of its \<open>select\<close> fires it returns \<open>E\<close> itself, and \<open>Err()\<close>
  of the returned context is nil.
\<close>

lemma Wait_in_time_returns_endpoint_error:
  assumes "ep t (ctx t) (req t) (resp t) = Return (Some E)"
      and "taskContext.err (ctx t) = None"
      and "ctx_Err (Context (ctx t)) = None"
      and "\<not> (snd (Deadline (ctx t)) \<and> fst (Deadline (ctx t)) < now)"
  shows "Run stack t = Inr (task_Cancel (Some errTaskDone) (t\<lparr>err := Some E\<rparr>)) \<and>
         Wait now CtxDone (task_Cancel (Some errTaskDone) (t\<lparr>err := Some E\<rparr>)) =
           Some (wg_Done (task_Cancel (Some errTaskDone) (t\<lparr>err := Some E\<rparr>)), Some E) \<and>
         (Wait now sel (task_Cancel (Some errTaskDone) (t\<lparr>err := Some E\<rparr>)) = None \<or>
          Wait now sel (task_Cancel (Some errTaskDone) (t\<lparr>err := Some E\<rparr>)) =
            Some (wg_Done (task_Cancel (Some errTaskDone) (t\<lparr>err := Some E\<rparr>)), Some E)) \<and>
         Err (ctx (wg_Done (task_Cancel (Some errTaskDone) (t\<lparr>err := Some E\<rparr>)))) = None"
proof -
  let ?t1 = "task_Cancel (Some errTaskDone) (t\<lparr>err := Some E\<rparr>)"
  have run: "Run stack t = Inr ?t1"
    using assms(1) by (simp add: Run_def call_ep_eq Run_after_Return)
  have c: "ctx ?t1 = (ctx t)\<lparr>taskContext.err := Some errTaskDone, ch := Suc (ch (ctx t))\<rparr>"
    using assms(2) by (simp add: task_Cancel_def Cancel_def)
  have dl: "Deadline (ctx ?t1) = Deadline (ctx t)"
    by (simp add: c Deadline_def)
  have dn: "Done (ctx ?t1)" "taskContext.err (ctx ?t1) \<noteq> None"
    by (simp_all add: c Done_def)
  have load: "load_or_Err ?t1 = Some E"
    by (simp add: load_or_Err_def Load_def task_Cancel_def)
  have e: "Err (ctx (wg_Done ?t1)) = None"
    using assms(3) by (simp add: wg_Done_def c Err_def)
  show ?thesis
    using run Wait_CtxDone [of ?t1 now] Wait_completed [of ?t1 now sel] dn assms(4) load e
    by (simp only: dl) simp
qed

text \<open>
  Claim C8 at its failing inputs. The endpoint returns the error \<open>E\<close>, and \<open>Run\<close>
  completes before anything else has cancelled the context (no error recorded in it,
  the caller live): the slot holds \<open>E\<close> and the context the sentinel. But \<open>Wait\<close> reads the
  clock only after the deadline has passed. Then it returns nil, whatever the
  \<open>select\<close> would have done: the path for a passed deadline returns the context's
  \<open>Err()\<close> and never loads the slot.
\<close>

theorem Wait_entered_late_loses_endpoint_error:
  assumes "ep t (ctx t) (req t) (resp t) = Return (Some E)"
      and "taskContext.err (ctx t) = None"
      and "ctx_Err (Context (ctx t)) = None"
      and "snd (Deadline (ctx t))"
      and "fst (Deadline (ctx t)) - now < 0"
  shows "Run stack t = Inr (task_Cancel (Some errTaskDone) (t\<lparr>err := Some E\<rparr>)) \<and>
         Load (err (task_Cancel (Some errTaskDone) (t\<lparr>err := Some E\<rparr>))) = Some E \<and>
         Wait now sel (task_Cancel (Some errTaskDone) (t\<lparr>err := Some E\<rparr>)) =
           Some (wg_Done (task_Cancel (Some errTaskDone) (t\<lparr>err := Some E\<rparr>)), None)"
proof -
  let ?t1 = "task_Cancel (Some errTaskDone) (t\<lparr>err := Some E\<rparr>)"
  have run: "Run stack t = Inr ?t1"
    using assms(1) by (simp add: Run_def call_ep_eq Run_after_Return)
  have c: "ctx ?t1 = (ctx t)\<lparr>taskContext.err := Some errTaskDone, ch := Suc (ch (ctx t))\<rparr>"
    using assms(2) by (simp add: task_Cancel_def Cancel_def)
  have dl: "Deadline (ctx ?t1) = Deadline (ctx t)"
    by (simp add: c Deadline_def)
  have noop: "task_Cancel (Some DeadlineExceeded) ?t1 = ?t1"
    by (simp add: task_Cancel_def Cancel_def c)
  have e: "Err (Cancel (Some DeadlineExceeded) (ctx ?t1)) = None"
    using assms(3) by (simp add: c Cancel_def Err_def)
  have w: "Wait now sel ?t1 = Some (wg_Done ?t1, None)"
    using Wait_past_deadline [of ?t1 now sel] assms(4,5) noop e
    by (simp add: dl)
  have l: "Load (err ?t1) = Some E"
    by (simp add: Load_def task_Cancel_def)
  show ?thesis
    using run w l by simp
qed

text \<open>
  The "ReturnErr" case of \<open>TestTask\<close> with a \<open>Wait\<close> that reads the clock 25 ms after the
  start, 5 ms past the deadline, and would have been woken by its timer.
\<close>

theorem Wait_entered_late_loses_endpoint_error_witness:
  "Deadline (ctx ReturnErr_task) = (test_start + 20 * Millisecond, True) \<and>
   (test_start + 20 * Millisecond) - (test_start + 25 * Millisecond) < 0 \<and>
   Run ''goroutine 7 [running]'' ReturnErr_task =
     Inr (task_Cancel (Some errTaskDone) (ReturnErr_task\<lparr>err := Some returnErr\<rparr>)) \<and>
   Load (err (task_Cancel (Some errTaskDone) (ReturnErr_task\<lparr>err := Some returnErr\<rparr>))) =
     Some returnErr \<and>
   Wait (test_start + 25 * Millisecond) TimerC
       (task_Cancel (Some errTaskDone) (ReturnErr_task\<lparr>err := Some returnErr\<rparr>)) =
     Some (wg_Done (task_Cancel (Some errTaskDone) (ReturnErr_task\<lparr>err := Some returnErr\<rparr>)),
           None)"
  using Wait_entered_late_loses_endpoint_error
    [of ReturnErr_task returnErr "test_start + 25 * Millisecond"
        "''goroutine 7 [running]''" TimerC]
  by (simp add: scenario_defs)

subsection \<open>A deadline that has passed when \<open>Wait\<close> starts\<close>

text \<open>
  Claim C3, as the code has it. When the task context has a deadline, the time left
  until it is negative when \<open>Wait\<close> reads the clock, and no error has been recorded in
  the context yet (so \<open>Run\<close> has not completed), \<open>Wait\<close> cancels the context with
  \<open>DeadlineExceeded\<close> and returns that error at once, whatever the \<open>select\<close> would have
  done, without touching the error slot.
\<close>

theorem Wait_deadline_already_passed:
  assumes "snd (Deadline (ctx t))"
      and "fst (Deadline (ctx t)) - now < 0"
      and "taskContext.err (ctx t) = None"
  shows "Wait now sel t =
           Some (wg_Done (task_Cancel (Some DeadlineExceeded) t), Some DeadlineExceeded) \<and>
         Err (ctx (wg_Done (task_Cancel (Some DeadlineExceeded) t))) = Some DeadlineExceeded \<and>
         Done (ctx (wg_Done (task_Cancel (Some DeadlineExceeded) t))) \<and>
         err (wg_Done (task_Cancel (Some DeadlineExceeded) t)) = err t"
  using assms
  by (simp add: Wait_def Deadline_def Let_def task_Cancel_def Cancel_def Err_def
        wg_Done_def Done_def)

text \<open>
  A task that no goroutine has run yet, 21 ms after a start with a timeout of 20 ms.
\<close>

theorem Wait_deadline_already_passed_witness:
  "Deadline (ctx ReturnErr_task) = (test_start + 20 * Millisecond, True) \<and>
   (test_start + 20 * Millisecond) - (test_start + 21 * Millisecond) < 0 \<and>
   taskContext.err (ctx ReturnErr_task) = None \<and>
   Wait (test_start + 21 * Millisecond) CtxDone ReturnErr_task =
     Some (wg_Done (task_Cancel (Some DeadlineExceeded) ReturnErr_task), Some DeadlineExceeded)"
  using Wait_deadline_already_passed
    [of ReturnErr_task "test_start + 21 * Millisecond" CtxDone]
  by (simp add: scenario_defs)

text \<open>
  Claim C3 as it is stated fails once \<open>Run\<close> has completed: the context then holds
  the sentinel, \<open>Cancel(DeadlineExceeded)\<close> records nothing, and \<open>Wait\<close> returns the
  caller's \<open>Err()\<close>, here nil, although the deadline passed a second before.
\<close>

theorem Wait_deadline_passed_after_Run_counterexample:
  "Run ''goroutine 7 [running]'' noop_task = Inr (task_Cancel (Some errTaskDone) noop_task) \<and>
   Deadline (ctx (task_Cancel (Some errTaskDone) noop_task)) = (test_start + Second, True) \<and>
   (test_start + Second) - (test_start + 2 * Second) < 0 \<and>
   Wait (test_start + 2 * Second) CtxDone (task_Cancel (Some errTaskDone) noop_task) =
     Some (wg_Done (task_Cancel (Some errTaskDone) noop_task), None) \<and>
   Wait (test_start + 2 * Second) ParentDone (task_Cancel (Some errTaskDone) noop_task) =
     Some (wg_Done (task_Cancel (Some errTaskDone) noop_task), None) \<and>
   Wait (test_start + 2 * Second) TimerC (task_Cancel (Some errTaskDone) noop_task) =
     Some (wg_Done (task_Cancel (Some errTaskDone) noop_task), None)"
  by (simp add: scenario_defs Run_def call_ep_def Run_after_Return Wait_def task_Cancel_def
        Cancel_def Err_def wg_Done_def)

text \<open>
  Claim C1 at a failing input. In the "ReturnErr" scenario \<open>Run\<close> has completed and
  the slot holds the endpoint's error; \<open>Wait\<close> reads the clock 21 ms after the start,
  1 ms past the deadline. It returns nil: this path returns the context's \<open>Err()\<close>
  without reading the slot. At the deadline itself, on the path through the
  \<open>select\<close>, the same task gives the endpoint's error.
\<close>

theorem Wait_past_deadline_drops_endpoint_error:
  "Run ''goroutine 7 [running]'' ReturnErr_task =
     Inr (task_Cancel (Some errTaskDone) (ReturnErr_task\<lparr>err := Some returnErr\<rparr>)) \<and>
   Load (err (task_Cancel (Some errTaskDone) (ReturnErr_task\<lparr>err := Some returnErr\<rparr>))) =
     Some returnErr \<and>
   Deadline (ctx (task_Cancel (Some errTaskDone) (ReturnErr_task\<lparr>err := Some returnErr\<rparr>))) =
     (test_start + 20 * Millisecond, True) \<and>
   (test_start + 20 * Millisecond) - (test_start + 21 * Millisecond) < 0 \<and>
   Wait (test_start + 21 * Millisecond) CtxDone
       (task_Cancel (Some errTaskDone) (ReturnErr_task\<lparr>err := Some returnErr\<rparr>)) =
     Some (wg_Done (task_Cancel (Some errTaskDone) (ReturnErr_task\<lparr>err := Some returnErr\<rparr>)),
           None) \<and>
   Wait (test_start + 20 * Millisecond) CtxDone
       (task_Cancel (Some errTaskDone) (ReturnErr_task\<lparr>err := Some returnErr\<rparr>)) =
     Some (wg_Done (task_Cancel (Some errTaskDone) (ReturnErr_task\<lparr>err := Some returnErr\<rparr>)),
           Some returnErr)"
  by (simp add: scenario_defs Run_def call_ep_def Run_after_Return Wait_def task_Cancel_def
        Cancel_def Err_def wg_Done_def Load_def load_or_Err_def Done_def)

section \<open>Properties of the pool\<close>

lemma first_idle_lt: "first_idle ws = Some i \<Longrightarrow> i < length ws"
  by (induction ws arbitrary: i rule: first_idle.induct) auto

lemma sint_add1: "sint (w::32 word) < 2147483647 \<Longrightarrow> sint (w + 1) = sint w + 1"
  using sint_ge[of w] by (simp add: sint_word_ariths signed_take_bit_int_eq_self)

lemma sint_sub1: "- 2147483648 < sint (w::32 word) \<Longrightarrow> sint (w - 1) = sint w - 1"
  using sint_lt[of w] by (simp add: sint_word_ariths signed_take_bit_int_eq_self)

lemma sint_of_int32:
  "- 2147483648 \<le> m \<Longrightarrow> m < 2147483648 \<Longrightarrow> sint (word_of_int m :: 32 word) = m"
  by (simp add: signed_of_int signed_take_bit_int_eq_self)

lemma createTicker_fields:
  "size' (createTicker p) = size' p \<and> maxIdle (createTicker p) = maxIdle p \<and>
   workers (createTicker p) = workers p \<and> maxIdleTime (createTicker p) = maxIdleTime p"
  by (simp add: createTicker_def Let_def split: option.split)

lemma createTicker_started:
  "started (createTicker p) = started p @ [Reaper (chans p) (tick_period p)] \<and>
   ticker (createTicker p) = Some (chans p) \<and>
   chans (createTicker p) = Suc (chans p) \<and>
   closed (createTicker p) = closed p @ (case ticker p of Some c \<Rightarrow> [c] | None \<Rightarrow> [])"
  by (simp add: createTicker_def Let_def tick_period_def split: option.split)

lemma createWorker_True:
  "size' p + 1 <s maxIdle p \<Longrightarrow>
   createWorker t p =
     (True, (if size' p + 1 = 1 then createTicker (p\<lparr>size' := size' p + 1\<rparr>)
             else p\<lparr>size' := size' p + 1\<rparr>)
        \<lparr>workers := workers p @ [Running],
         started := started (if size' p + 1 = 1 then createTicker (p\<lparr>size' := size' p + 1\<rparr>)
             else p\<lparr>size' := size' p + 1\<rparr>) @ [WorkerLoop t]\<rparr>)"
  by (simp add: createWorker_def AddInt32_def Let_def createTicker_fields)

lemma createWorker_False:
  "\<not> size' p + 1 <s maxIdle p \<Longrightarrow> createWorker t p = (False, p)"
  by (simp add: createWorker_def AddInt32_def)

text \<open>
  Claim C9. \<open>createWorker\<close> adds one to \<open>size\<close>. When the result is below \<open>maxIdle\<close> it
  keeps it, starts the reaper first if the result is exactly \<open>1\<close> (closing nothing but
  the previous tick channel and installing a new one), then starts the worker, and
  returns true. Otherwise it takes the one back, so that the pool is as before, and
  returns false.
\<close>

theorem createWorker_algorithm:
  "fst (createWorker t p) = (size' p + 1 <s maxIdle p) \<and>
   size' (snd (createWorker t p)) = (if size' p + 1 <s maxIdle p then size' p + 1 else size' p) \<and>
   started (snd (createWorker t p)) =
     started p @
     (if size' p + 1 <s maxIdle p
      then (if size' p + 1 = 1 then [Reaper (chans p) (tick_period p)] else []) @ [WorkerLoop t]
      else []) \<and>
   workers (snd (createWorker t p)) =
     workers p @ (if size' p + 1 <s maxIdle p then [Running] else []) \<and>
   ticker (snd (createWorker t p)) =
     (if size' p + 1 <s maxIdle p \<and> size' p + 1 = 1 then Some (chans p) else ticker p) \<and>
   (size' p + 1 <s maxIdle p \<or> createWorker t p = (False, p))"
proof (cases "size' p + 1 <s maxIdle p")
  case True
  have tp: "tick_period (p\<lparr>size' := 1\<rparr>) = tick_period p"
    by (simp add: tick_period_def)
  show ?thesis
    using True by (auto simp add: createWorker_True createTicker_started createTicker_fields tp)
next
  case False
  then show ?thesis by (simp add: createWorker_False)
qed

text \<open>
  A pool made by \<open>New(2, 100ms)\<close>: the first call starts the reaper and then the
  worker, the second leaves the pool as it is.
\<close>

theorem createWorker_algorithm_witness:
  "createWorker (7::nat) (New 2 (100 * Millisecond)) =
     (True, \<lparr>size' = 1, maxIdle = 2, maxIdleTime = 100 * Millisecond, ticker = Some 0,
             chans = 1, closed = [], workers = [Running],
             started = [Reaper 0 (Some (10 * Millisecond)), WorkerLoop 7]\<rparr>) \<and>
   createWorker (8::nat) (snd (createWorker (7::nat) (New 2 (100 * Millisecond)))) =
     (False, snd (createWorker (7::nat) (New 2 (100 * Millisecond))))"
  using createWorker_algorithm [of 7 "New 2 (100 * Millisecond) :: nat Pool"]
        createWorker_algorithm [of 8 "snd (createWorker (7::nat) (New 2 (100 * Millisecond)))"]
  by (simp add: New_def createWorker_def AddInt32_def createTicker_def tick_period_def quo_def Millisecond_def word_sless_alt)

subsection \<open>Concurrent submissions\<close>

lemma createWorker_add_True:
  "size' p + 1 <s maxIdle p \<Longrightarrow> createWorker_add t p = createWorker t p"
  by (simp add: createWorker_add_def createWorker_def AddInt32_def)

lemma createWorker_add_False:
  "\<not> size' p + 1 <s maxIdle p \<Longrightarrow> createWorker_add t p = (False, p\<lparr>size' := size' p + 1\<rparr>)"
  by (simp add: createWorker_add_def AddInt32_def)

lemma createWorker_undo_eq: "createWorker_undo p = (False, p\<lparr>size' := size' p - 1\<rparr>)"
  by (simp add: createWorker_undo_def AddInt32_def)

text \<open>
  \<open>createWorker\<close> is its two halves run without anything in between.
\<close>

lemma createWorker_halves:
  "createWorker t p =
     (case createWorker_add t p of
        (True, p') \<Rightarrow> (True, p')
      | (False, p') \<Rightarrow> createWorker_undo p')"
  by (cases "size' p + 1 <s maxIdle p")
     (simp_all add: createWorker_add_True createWorker_add_False createWorker_undo_eq
        createWorker_True createWorker_False)

text \<open>
  \<open>RunTask\<close> up to its \<open>Wait\<close>, run without anything in between, is a submission
  followed at once by the end of its own refusal, if it was refused.
\<close>

lemma RunTask_dispatch_steps:
  "steps [Submit t, Refuse (length (refusing s))] s =
     s\<lparr>pool := snd (RunTask_dispatch t (pool s))\<rparr>"
proof (cases "first_idle (workers (pool s))")
  case (Some i)
  then show ?thesis by (simp add: RunTask_dispatch_def)
next
  case None
  show ?thesis
  proof (cases "size' (pool s) + 1 <s maxIdle (pool s)")
    case True
    then show ?thesis
      using None by (simp add: RunTask_dispatch_def createWorker_add_True createWorker_True)
  next
    case False
    then show ?thesis
      using None
      by (simp add: RunTask_dispatch_def createWorker_add_False createWorker_False
            createWorker_undo_eq)
  qed
qed

lemma workers_small:
  assumes "pool_inv s"
      and "int (length (refusing s)) + max 1 (sint (maxIdle (pool s))) < 2147483648"
  shows "sint (size' (pool s)) < 2147483647"
  using assms unfolding pool_inv_def by linarith

lemma submit_decision:
  assumes "pool_inv s"
      and "int (length (refusing s)) + max 1 (sint (maxIdle (pool s))) < 2147483648"
  shows "(size' (pool s) + 1 <s maxIdle (pool s)) =
         (int (length (workers (pool s))) + int (length (refusing s)) + 1 < sint (maxIdle (pool s)))"
proof -
  have "sint (size' (pool s) + 1) = sint (size' (pool s)) + 1"
    by (rule sint_add1 [OF workers_small [OF assms]])
  then show ?thesis
    using assms(1) by (simp add: word_sless_alt pool_inv_def)
qed

lemma pool_inv_Submit:
  assumes "pool_inv s"
      and "int (length (refusing s)) + max 1 (sint (maxIdle (pool s))) < 2147483648"
  shows "pool_inv (step (Submit t) s)"
proof (cases "first_idle (workers (pool s))")
  case (Some i)
  then show ?thesis using assms(1) by (simp add: pool_inv_def)
next
  case None
  have n: "sint (size' (pool s) + 1) = sint (size' (pool s)) + 1"
    by (rule sint_add1 [OF workers_small [OF assms]])
  show ?thesis
  proof (cases "size' (pool s) + 1 <s maxIdle (pool s)")
    case True
    then have "int (length (workers (pool s))) + int (length (refusing s)) + 1
                 < sint (maxIdle (pool s))"
      using submit_decision [OF assms] by simp
    then show ?thesis
      using None True n assms(1)
      by (auto simp add: createWorker_add_True createWorker_True pool_inv_def
            createTicker_fields)
  next
    case False
    then show ?thesis
      using None n assms(1) by (simp add: createWorker_add_False pool_inv_def)
  qed
qed

lemma pool_inv_Refuse:
  assumes "pool_inv s"
  shows "pool_inv (step (Refuse i) s)"
proof (cases "i < length (refusing s)")
  case False
  then show ?thesis using assms by simp
next
  case True
  have pos: "- 2147483648 < sint (size' (pool s))"
    using assms by (simp add: pool_inv_def)
  have len: "length (take i (refusing s) @ drop (Suc i) (refusing s)) = length (refusing s) - 1"
    using True by simp
  show ?thesis
    using assms True sint_sub1 [OF pos] len
    by (auto simp add: createWorker_undo_eq pool_inv_def simp del: length_append)
qed

lemma pool_inv_Left:
  assumes "pool_inv s"
  shows "pool_inv (step (Left i) s)"
proof (cases "i < length (workers (pool s)) \<and> workers (pool s) ! i = Leaving")
  case False
  then show ?thesis using assms by (auto simp add: worker_exit_def)
next
  case True
  have pos: "- 2147483648 < sint (size' (pool s))"
    using assms by (simp add: pool_inv_def)
  have len: "length (take i (workers (pool s)) @ drop (Suc i) (workers (pool s))) =
             length (workers (pool s)) - 1"
    using True by simp
  show ?thesis
    using assms True sint_sub1 [OF pos] len
    by (auto simp add: worker_exit_def AddInt32_def pool_inv_def simp del: length_append)
qed

lemma pool_inv_Noop: "pool_inv s \<Longrightarrow> pool_inv (step (Noop now) s)"
  by (auto simp: worker_noop_def pool_inv_def split: option.split worker.split)

lemma pool_inv_Ran: "pool_inv s \<Longrightarrow> pool_inv (step (Ran i now) s)"
  by (simp add: worker_ran_def pool_inv_def)

lemma pool_inv_step:
  assumes "pool_inv s"
      and "int (length (refusing s)) + max 1 (sint (maxIdle (pool s))) < 2147483648"
  shows "pool_inv (step e s)"
  using assms
  by (cases e)
     (simp_all only: pool_inv_Submit pool_inv_Refuse pool_inv_Noop pool_inv_Ran pool_inv_Left)

lemma maxIdle_createWorker_add: "maxIdle (snd (createWorker_add t p)) = maxIdle p"
  by (simp add: createWorker_add_def AddInt32_def Let_def createTicker_fields)

lemma maxIdle_step: "maxIdle (pool (step e s)) = maxIdle (pool s)"
proof (cases e)
  case (Submit t)
  then show ?thesis
    using maxIdle_createWorker_add [of t "pool s"]
    by (cases "createWorker_add t (pool s)") (simp split: option.split)
next
  case (Refuse i)
  then show ?thesis by (simp add: createWorker_undo_eq)
next
  case (Ran i now)
  then show ?thesis by (simp add: worker_ran_def)
next
  case (Noop now)
  then show ?thesis
    by (simp add: worker_noop_def split: option.split worker.split)
next
  case (Left i)
  then show ?thesis by (simp add: worker_exit_def AddInt32_def)
qed

lemma refusing_step: "length (refusing (step e s)) \<le> Suc (length (refusing s))"
proof (cases e)
  case (Submit t)
  then show ?thesis
    by (cases "createWorker_add t (pool s)") (simp split: option.split)
next
  case (Refuse i)
  then show ?thesis by (auto simp add: createWorker_undo_eq)
qed simp_all

lemma pool_inv_steps:
  assumes "pool_inv s"
      and "int (length (refusing s)) + int (length es) + max 0 (sint (maxIdle (pool s)) - 1)
             < 2147483648"
  shows "pool_inv (steps es s) \<and>
         maxIdle (pool (steps es s)) = maxIdle (pool s) \<and>
         length (refusing (steps es s)) \<le> length (refusing s) + length es"
  using assms
proof (induction es arbitrary: s)
  case Nil
  then show ?case by simp
next
  case (Cons e es)
  have b: "int (length (refusing s)) + max 1 (sint (maxIdle (pool s))) < 2147483648"
    using Cons.prems(2) by simp
  have inv: "pool_inv (step e s)"
    by (rule pool_inv_step [OF Cons.prems(1) b])
  have r: "int (length (refusing (step e s))) \<le> int (length (refusing s)) + 1"
    using refusing_step [of e s] by simp
  have b': "int (length (refusing (step e s))) + int (length es) +
              max 0 (sint (maxIdle (pool (step e s))) - 1) < 2147483648"
    using Cons.prems(2) r by (simp add: maxIdle_step)
  show ?case
    using Cons.IH [OF inv b'] r by (simp add: maxIdle_step)
qed

lemma pool_inv_at_New: "pool_inv (at_New m d)"
  by (simp add: pool_inv_def at_New_def New_def)

lemma createWorker_kept:
  assumes "size' p + 1 <s maxIdle p"
  shows "size' (snd (createWorker t p)) = size' p + 1 \<and>
         workers (snd (createWorker t p)) = workers p @ [Running] \<and>
         started (snd (createWorker t p)) =
           started p @ (if size' p + 1 = 1 then [Reaper (chans p) (tick_period p)] else []) @
           [WorkerLoop t]"
proof -
  have tp: "tick_period (p\<lparr>size' := 1\<rparr>) = tick_period p"
    by (simp add: tick_period_def)
  show ?thesis
    using assms
    by (auto simp add: createWorker_True createTicker_started createTicker_fields tp)
qed

lemmas pool_run_defs =
  at_New_def New_def Size_def createWorker_add_def createWorker_undo_def createWorker_def
  AddInt32_def createTicker_def tick_period_def quo_def Millisecond_def word_sless_alt
  worker_noop_def worker_ran_def worker_exit_def RunTask_dispatch_def

text \<open>
  Claim C2, as the code has it. Take a pool made by \<open>New(m, d)\<close> after any events
  \<open>es\<close>, few enough for the 32-bit counter not to wrap. \<open>size\<close> is the number of
  resident workers plus the number of submissions that are between the increment
  and the decrement of a refused \<open>createWorker\<close>, and there are at most \<open>m - 1\<close> resident
  workers (none for \<open>m \<le> 1\<close>). A submission that misses the hand-off creates a worker
  exactly when that number plus one, the value of its increment, is below \<open>m\<close>: then
  it does what \<open>createWorker\<close> does, one more running worker, started after the reaper
  when the increment gave \<open>1\<close>. Otherwise it leaves the workers and the started
  goroutines as they are and is refusing, the counter raised. A refusing submission
  ends by lowering the counter and starting its task on a detached goroutine, the
  workers untouched. With \<open>m = 1\<close> the pool never has a resident worker and every
  submission is refused.
\<close>

theorem maxIdle_bounds_resident_workers:
  assumes "- 2147483648 \<le> m"
      and "int (length es) + max 1 m < 2147483648"
  shows "sint (Size (pool (steps es (at_New m d)))) =
           int (length (workers (pool (steps es (at_New m d))))) +
           int (length (refusing (steps es (at_New m d)))) \<and>
         int (length (workers (pool (steps es (at_New m d))))) \<le> max 0 (m - 1) \<and>
         (first_idle (workers (pool (steps es (at_New m d)))) = None \<longrightarrow>
            step (Submit t) (steps es (at_New m d)) =
              (if int (length (workers (pool (steps es (at_New m d))))) +
                  int (length (refusing (steps es (at_New m d)))) + 1 < m
               then (steps es (at_New m d))
                      \<lparr>pool := snd (createWorker t (pool (steps es (at_New m d))))\<rparr>
               else (steps es (at_New m d))
                      \<lparr>pool := (pool (steps es (at_New m d)))
                                 \<lparr>size' := size' (pool (steps es (at_New m d))) + 1\<rparr>,
                       refusing := refusing (steps es (at_New m d)) @ [t]\<rparr>) \<and>
            workers (pool (step (Submit t) (steps es (at_New m d)))) =
              workers (pool (steps es (at_New m d))) @
              (if int (length (workers (pool (steps es (at_New m d))))) +
                  int (length (refusing (steps es (at_New m d)))) + 1 < m
               then [Running] else []) \<and>
            started (pool (step (Submit t) (steps es (at_New m d)))) =
              started (pool (steps es (at_New m d))) @
              (if int (length (workers (pool (steps es (at_New m d))))) +
                  int (length (refusing (steps es (at_New m d)))) + 1 < m
               then (if size' (pool (steps es (at_New m d))) + 1 = 1
                     then [Reaper (chans (pool (steps es (at_New m d))))
                             (tick_period (pool (steps es (at_New m d))))]
                     else []) @ [WorkerLoop t]
               else [])) \<and>
         (i < length (refusing (steps es (at_New m d))) \<longrightarrow>
            step (Refuse i) (steps es (at_New m d)) =
              (steps es (at_New m d))
                \<lparr>pool := (pool (steps es (at_New m d)))
                           \<lparr>size' := size' (pool (steps es (at_New m d))) - 1,
                            started := started (pool (steps es (at_New m d))) @
                              [DetachedRun (refusing (steps es (at_New m d)) ! i)]\<rparr>,
                 refusing := take i (refusing (steps es (at_New m d))) @
                             drop (Suc i) (refusing (steps es (at_New m d)))\<rparr>) \<and>
         (m = 1 \<longrightarrow>
            workers (pool (steps es (at_New m d))) = [] \<and>
            step (Submit t) (steps es (at_New m d)) =
              (steps es (at_New m d))
                \<lparr>pool := (pool (steps es (at_New m d)))
                           \<lparr>size' := size' (pool (steps es (at_New m d))) + 1\<rparr>,
                 refusing := refusing (steps es (at_New m d)) @ [t]\<rparr>)"
proof -
  let ?s = "steps es (at_New m d)"
  let ?p = "pool ?s"
  let ?n = "int (length (workers ?p)) + int (length (refusing ?s)) + 1"
  have m32: "sint (maxIdle (pool (at_New m d :: 'a submitting))) = m"
    using assms by (simp add: at_New_def New_def sint_of_int32)
  have b0: "int (length (refusing (at_New m d :: 'a submitting))) + int (length es) +
              max 0 (sint (maxIdle (pool (at_New m d :: 'a submitting))) - 1) < 2147483648"
    using assms(2) by (simp add: m32) (simp add: at_New_def)
  note st = pool_inv_steps [OF pool_inv_at_New b0]
  have inv: "pool_inv ?s" and mi: "sint (maxIdle ?p) = m"
    and rl: "int (length (refusing ?s)) \<le> int (length es)"
    using st m32 by (simp_all add: at_New_def)
  have a: "sint (Size ?p) = int (length (workers ?p)) + int (length (refusing ?s))"
    using inv by (simp add: pool_inv_def Size_def)
  have b: "int (length (workers ?p)) \<le> max 0 (m - 1)"
    using inv mi by (simp add: pool_inv_def)
  have bound: "int (length (refusing ?s)) + max 1 (sint (maxIdle ?p)) < 2147483648"
    using rl assms(2) mi by simp
  have dec: "(size' ?p + 1 <s maxIdle ?p) = (?n < m)"
    using submit_decision [OF inv bound] mi by simp
  have kept: "?n < m \<Longrightarrow> first_idle (workers ?p) = None \<Longrightarrow>
      step (Submit t) ?s = ?s\<lparr>pool := snd (createWorker t ?p)\<rparr>"
    using dec by (simp add: createWorker_add_True createWorker_True)
  have refused: "\<not> ?n < m \<Longrightarrow> first_idle (workers ?p) = None \<Longrightarrow>
      step (Submit t) ?s = ?s\<lparr>pool := ?p\<lparr>size' := size' ?p + 1\<rparr>, refusing := refusing ?s @ [t]\<rparr>"
    using dec by (simp add: createWorker_add_False)
  have c: "first_idle (workers ?p) = None \<longrightarrow>
      step (Submit t) ?s =
        (if ?n < m then ?s\<lparr>pool := snd (createWorker t ?p)\<rparr>
         else ?s\<lparr>pool := ?p\<lparr>size' := size' ?p + 1\<rparr>, refusing := refusing ?s @ [t]\<rparr>) \<and>
      workers (pool (step (Submit t) ?s)) = workers ?p @ (if ?n < m then [Running] else []) \<and>
      started (pool (step (Submit t) ?s)) =
        started ?p @
        (if ?n < m
         then (if size' ?p + 1 = 1 then [Reaper (chans ?p) (tick_period ?p)] else []) @
              [WorkerLoop t]
         else [])"
  proof (cases "?n < m")
    case True
    then have w: "size' ?p + 1 <s maxIdle ?p" using dec by simp
    show ?thesis
      using True kept createWorker_kept [OF w, of t] by simp
  next
    case False
    then show ?thesis using refused by simp
  qed
  have d: "i < length (refusing ?s) \<longrightarrow>
      step (Refuse i) ?s =
        ?s\<lparr>pool := ?p\<lparr>size' := size' ?p - 1,
                        started := started ?p @ [DetachedRun (refusing ?s ! i)]\<rparr>,
           refusing := take i (refusing ?s) @ drop (Suc i) (refusing ?s)\<rparr>"
    by (simp add: createWorker_undo_eq)
  have e: "m = 1 \<longrightarrow> workers ?p = [] \<and>
      step (Submit t) ?s = ?s\<lparr>pool := ?p\<lparr>size' := size' ?p + 1\<rparr>, refusing := refusing ?s @ [t]\<rparr>"
  proof
    assume m1: "m = 1"
    then have w: "workers ?p = []" using b by simp
    then have "first_idle (workers ?p) = None" by simp
    moreover have "\<not> ?n < m" using m1 by simp
    ultimately show "workers ?p = [] \<and>
      step (Submit t) ?s = ?s\<lparr>pool := ?p\<lparr>size' := size' ?p + 1\<rparr>, refusing := refusing ?s @ [t]\<rparr>"
      using w refused by blast
  qed
  show ?thesis
    using a b c d e by blast
qed

text \<open>
  \<open>New(1, 100ms)\<close> after two submissions, the end of the first one's refusal and a
  tick: no worker, the task \<open>7\<close> running detached, the task \<open>8\<close> still refusing; a third
  submission is refused too, and the end of the refusal of \<open>8\<close> starts it detached.
\<close>

theorem maxIdle_bounds_resident_workers_witness:
  "- 2147483648 \<le> (1::int) \<and>
   int (length [Submit (7::nat), Submit 8, Refuse 0, Noop 5]) + max 1 1 < 2147483648 \<and>
   workers (pool (steps [Submit (7::nat), Submit 8, Refuse 0, Noop 5]
                    (at_New 1 (100 * Millisecond)))) = [] \<and>
   refusing (steps [Submit (7::nat), Submit 8, Refuse 0, Noop 5]
               (at_New 1 (100 * Millisecond))) = [8] \<and>
   started (pool (steps [Submit (7::nat), Submit 8, Refuse 0, Noop 5]
                    (at_New 1 (100 * Millisecond)))) = [DetachedRun 7] \<and>
   Size (pool (steps [Submit (7::nat), Submit 8, Refuse 0, Noop 5]
                 (at_New 1 (100 * Millisecond)))) = 1 \<and>
   refusing (step (Submit 9) (steps [Submit (7::nat), Submit 8, Refuse 0, Noop 5]
               (at_New 1 (100 * Millisecond)))) = [8, 9] \<and>
   workers (pool (step (Submit 9) (steps [Submit (7::nat), Submit 8, Refuse 0, Noop 5]
               (at_New 1 (100 * Millisecond))))) = [] \<and>
   started (pool (step (Refuse 0) (steps [Submit (7::nat), Submit 8, Refuse 0, Noop 5]
               (at_New 1 (100 * Millisecond))))) = [DetachedRun 7, DetachedRun 8]"
  using maxIdle_bounds_resident_workers
    [of 1 "[Submit (7::nat), Submit 8, Refuse 0, Noop 5]" "100 * Millisecond" 9 0]
  by (simp add: pool_run_defs)

text \<open>
  Claim C2 as it is stated fails in the pool of \<open>TestWPool\<close>, \<open>New(2, 100ms)\<close>: after
  one submission there is one worker, which is running, and no submission under way,
  so the count \<open>1\<close> is strictly below \<open>maxIdle = 2\<close>; the next submission misses the
  hand-off, no worker is created for it, and its task runs detached. \<open>RunTask\<close> run
  without interruption gives the same.
\<close>

theorem maxIdle_strictly_below_counterexample:
  "workers (pool (steps [Submit (7::nat)] (at_New 2 (100 * Millisecond)))) = [Running] \<and>
   refusing (steps [Submit (7::nat)] (at_New 2 (100 * Millisecond))) = [] \<and>
   Size (pool (steps [Submit (7::nat)] (at_New 2 (100 * Millisecond)))) = 1 \<and>
   maxIdle (pool (steps [Submit (7::nat)] (at_New 2 (100 * Millisecond)))) = 2 \<and>
   (1 :: 32 word) <s 2 \<and>
   first_idle (workers (pool (steps [Submit (7::nat)] (at_New 2 (100 * Millisecond))))) = None \<and>
   workers (pool (steps [Submit (7::nat), Submit 8] (at_New 2 (100 * Millisecond)))) = [Running] \<and>
   refusing (steps [Submit (7::nat), Submit 8] (at_New 2 (100 * Millisecond))) = [8] \<and>
   pool (steps [Submit (7::nat), Submit 8, Refuse 0] (at_New 2 (100 * Millisecond))) =
     \<lparr>size' = 1, maxIdle = 2, maxIdleTime = 100 * Millisecond, ticker = Some 0,
      chans = 1, closed = [], workers = [Running],
      started = [Reaper 0 (Some (10 * Millisecond)), WorkerLoop 7, DetachedRun 8]\<rparr> \<and>
   RunTask_dispatch 8 (pool (steps [Submit (7::nat)] (at_New 2 (100 * Millisecond)))) =
     (Detached, pool (steps [Submit (7::nat), Submit 8, Refuse 0] (at_New 2 (100 * Millisecond))))"
  by (simp add: pool_run_defs)

end
